theory Spec2Isabelle
  imports Complex_Main "HOL-Library.AList"
begin

section \<open>Python values, errors and requests\<close>

text \<open>
  The client is Python 3 code (\<^verbatim>\<open>src/poloniex/poloniex.py\<close>). The values it handles are
  the ones a decoded JSON document or a caller can hand it: \<^verbatim>\<open>None\<close>, booleans,
  unbounded integers, text, byte strings and dictionaries with text keys. Text is kept
  as its ASCII characters; floats and lists do not occur in the model. A dictionary is
  an association list in insertion order with distinct keys.
\<close>

datatype pyval =
    PNone
  | PBool bool
  | PInt int
  | PStr string
  | PBytes string
  | PDict "(string \<times> pyval) list"

text \<open>
  Every \<^verbatim>\<open>raise\<close> of the source and every exception of a library call it makes is a
  value. \<^verbatim>\<open>raise Exception(msg)\<close> keeps its message.
\<close>

datatype py_error =
    Exception string
  | AttributeError
  | TypeError
  | ValueError
  | IndexError
  | InvalidOperation

text \<open>
  Request parameters are a dictionary from names to strings or integers
  (\<^verbatim>\<open>params = {'command': ..., ...}\<close>).
\<close>

datatype qval = QStr string | QInt int

record client =
  api_key :: pyval
  secret :: string
  api_endpoint :: string
  private_api_endpoint :: string
  runner :: "unit option"
  websockets_endpoint :: string

text \<open>
  The public methods build their parameters and call
  \<^verbatim>\<open>requests.get('{}{}'.format(self.api_endpoint, resource), params=params)\<close>. The
  request they send is their value here; the reply is the remote side's.
\<close>

record http_get =
  get_url :: string
  get_params :: "(string \<times> qval) list"

definition CANDLE_PERIOD_14400 :: int where
  "CANDLE_PERIOD_14400 = 14400"

definition order_book :: "client \<Rightarrow> qval option \<Rightarrow> qval \<Rightarrow> http_get" where
  "order_book self pair depth =
     (let resource = ''public'';
          params = [(''command'', QStr ''returnOrderBook''), (''depth'', depth)];
          params = (case pair of None \<Rightarrow> params
                    | Some p \<Rightarrow> AList.update ''currencyPair'' p params)
      in \<lparr>get_url = api_endpoint self @ resource, get_params = params\<rparr>)"

definition trade_history :: "client \<Rightarrow> qval \<Rightarrow> qval \<Rightarrow> qval \<Rightarrow> http_get" where
  "trade_history self pair start end' =
     (let resource = ''public'';
          params = [(''command'', QStr ''returnOrderBook''), (''pair'', pair),
                    (''start'', start), (''end'', end')]
      in \<lparr>get_url = api_endpoint self @ resource, get_params = params\<rparr>)"

definition chart_data :: "client \<Rightarrow> qval \<Rightarrow> qval \<Rightarrow> qval \<Rightarrow> qval \<Rightarrow> http_get" where
  "chart_data self pair start end' period =
     (let resource = ''public'';
          params = [(''command'', QStr ''returnOrderBook''), (''pair'', pair),
                    (''start'', start), (''end'', end'), (''period'', period)]
      in \<lparr>get_url = api_endpoint self @ resource, get_params = params\<rparr>)"

definition loan_orders :: "client \<Rightarrow> qval \<Rightarrow> http_get" where
  "loan_orders self currency =
     (let resource = ''public'';
          params = [(''command'', QStr ''returnLoanOrders''), (''currency'', currency)]
      in \<lparr>get_url = api_endpoint self @ resource, get_params = params\<rparr>)"

section \<open>Credentials and construction\<close>

text \<open>
  Attribute access and the methods the constructor calls on a value of unknown type.
  \<^verbatim>\<open>d.get(k)\<close> is \<^verbatim>\<open>None\<close> for a missing key and an \<^verbatim>\<open>AttributeError\<close> on anything
  but a dictionary; \<^verbatim>\<open>s.encode('utf8')\<close> exists on text only; \<^verbatim>\<open>strip()\<close> exists on text
  and on byte strings.
\<close>

definition py_get :: "pyval \<Rightarrow> string \<Rightarrow> py_error + pyval" where
  "py_get d k =
     (case d of
        PDict kvs \<Rightarrow> Inr (case map_of kvs k of None \<Rightarrow> PNone | Some v \<Rightarrow> v)
      | _ \<Rightarrow> Inl AttributeError)"

definition is_space :: "char \<Rightarrow> bool" where
  "is_space c = (let n = (of_char c :: nat) in (9 \<le> n \<and> n \<le> 13) \<or> (28 \<le> n \<and> n \<le> 32))"

definition is_bytes_space :: "char \<Rightarrow> bool" where
  "is_bytes_space c = (let n = (of_char c :: nat) in (9 \<le> n \<and> n \<le> 13) \<or> n = 32)"

definition strip_with :: "(char \<Rightarrow> bool) \<Rightarrow> string \<Rightarrow> string" where
  "strip_with sp s = rev (dropWhile sp (rev (dropWhile sp s)))"

definition py_strip :: "pyval \<Rightarrow> py_error + pyval" where
  "py_strip v =
     (case v of
        PStr s \<Rightarrow> Inr (PStr (strip_with is_space s))
      | PBytes b \<Rightarrow> Inr (PBytes (strip_with is_bytes_space b))
      | _ \<Rightarrow> Inl AttributeError)"

definition py_encode :: "pyval \<Rightarrow> py_error + string" where
  "py_encode v = (case v of PStr s \<Rightarrow> Inr s | _ \<Rightarrow> Inl AttributeError)"

text \<open>
  \<^verbatim>\<open>v == 'literal'\<close> and \<^verbatim>\<open>v == 1\<close>: text equals text only (a byte string never equals
  text in Python 3), and \<^verbatim>\<open>True == 1\<close> holds because \<^verbatim>\<open>bool\<close> is a subclass of
  \<^verbatim>\<open>int\<close>.
\<close>

definition py_eq_str :: "pyval \<Rightarrow> string \<Rightarrow> bool" where
  "py_eq_str v s = (case v of PStr t \<Rightarrow> t = s | _ \<Rightarrow> False)"

definition py_eq_int :: "pyval \<Rightarrow> int \<Rightarrow> bool" where
  "py_eq_int v n =
     (case v of PInt m \<Rightarrow> m = n | PBool b \<Rightarrow> (if b then 1 else 0) = n | _ \<Rightarrow> False)"

text \<open>
  What the three readers of \<^verbatim>\<open>__get_credentials\<close> find under a path is the environment
  of the model, one function per reader, \<open>None\<close> where the reader raises:
  \<^item> \<open>ini_file\<close>: \<^verbatim>\<open>ConfigParser().read(path)\<close>, giving what
    \<^verbatim>\<open>config_parser.get(section, option)\<close> then returns (\<open>None\<close> where \<^verbatim>\<open>get\<close> raises;
    a missing file is read as an empty configuration);
  \<^item> \<open>json_file\<close>: the file opened, read, decoded and passed to \<^verbatim>\<open>json.loads\<close>;
  \<^item> \<open>py_file\<close>: the attributes of the module that \<^verbatim>\<open>SourceFileLoader\<close> loads.
\<close>

record files =
  ini_file :: "string \<Rightarrow> (string \<Rightarrow> string \<Rightarrow> string option) option"
  json_file :: "string \<Rightarrow> pyval option"
  py_file :: "string \<Rightarrow> (string \<times> pyval) list option"

datatype config_format = INI | JSON | PY

text \<open>
  Each \<^verbatim>\<open>try\<close> block either returns the pair or is left by its bare \<^verbatim>\<open>except: pass\<close>
  with the locals \<^verbatim>\<open>api_key\<close> and \<^verbatim>\<open>secret\<close> as assigned so far.
\<close>

datatype attempt = Return pyval pyval | Pass pyval pyval

definition try_ini :: "files \<Rightarrow> string \<Rightarrow> pyval \<Rightarrow> pyval \<Rightarrow> attempt" where
  "try_ini fs config_file_path api_key0 secret0 =
     (case ini_file fs config_file_path of
        None \<Rightarrow> Pass api_key0 secret0
      | Some config_parser_get \<Rightarrow>
          (case config_parser_get ''CONFIG'' ''apiKey'' of
             None \<Rightarrow> Pass api_key0 secret0
           | Some k \<Rightarrow>
               (case config_parser_get ''CONFIG'' ''secret'' of
                  None \<Rightarrow> Pass (PStr k) secret0
                | Some s \<Rightarrow> Return (PStr k) (PStr s))))"

definition try_json :: "files \<Rightarrow> string \<Rightarrow> pyval \<Rightarrow> pyval \<Rightarrow> attempt" where
  "try_json fs config_file_path api_key0 secret0 =
     (case json_file fs config_file_path of
        None \<Rightarrow> Pass api_key0 secret0
      | Some blob \<Rightarrow>
          (case py_get blob ''apiKey'' of
             Inl e \<Rightarrow> Pass api_key0 secret0
           | Inr k \<Rightarrow>
               (case py_get blob ''secret'' of
                  Inl e \<Rightarrow> Pass k secret0
                | Inr s \<Rightarrow> Return k s)))"

definition try_py :: "files \<Rightarrow> string \<Rightarrow> pyval \<Rightarrow> pyval \<Rightarrow> attempt" where
  "try_py fs config_file_path api_key0 secret0 =
     (case py_file fs config_file_path of
        None \<Rightarrow> Pass api_key0 secret0
      | Some config \<Rightarrow>
          (case map_of config ''api_key'' of
             None \<Rightarrow> Pass api_key0 secret0
           | Some k \<Rightarrow>
               (case map_of config ''secret'' of
                  None \<Rightarrow> Pass k secret0
                | Some s \<Rightarrow> Return k s)))"

definition EXAMPLES_URL :: string where
  "EXAMPLES_URL = ''https://github.com/Pancho/poloniex''"

definition not_configured :: py_error where
  "not_configured = Exception
     (''While the config file was found, it was not configured correctly. Check for examples here: ''
      @ EXAMPLES_URL)"

text \<open>
  \<^verbatim>\<open>__get_credentials\<close>: the formats it tried, in the order tried, and what it returned
  or raised.
\<close>

definition get_credentials ::
  "files \<Rightarrow> string \<Rightarrow> config_format list \<times> (py_error + pyval \<times> pyval)" where
  "get_credentials fs config_file_path =
     (case try_ini fs config_file_path PNone PNone of
        Return k s \<Rightarrow> ([INI], Inr (k, s))
      | Pass k1 s1 \<Rightarrow>
          (case try_json fs config_file_path k1 s1 of
             Return k s \<Rightarrow> ([INI, JSON], Inr (k, s))
           | Pass k2 s2 \<Rightarrow>
               (case try_py fs config_file_path k2 s2 of
                  Return k s \<Rightarrow> ([INI, JSON, PY], Inr (k, s))
                | Pass k3 s3 \<Rightarrow>
                    ([INI, JSON, PY],
                     if k3 = PNone \<or> s3 = PNone then Inl not_configured
                     else Inr (k3, s3)))))"

definition no_pair_given :: py_error where
  "no_pair_given = Exception
     ''You need to pass either config_file_path parameter or all of api_key and secret''"

definition no_credentials :: py_error where
  "no_credentials = Exception ''No credentials were found''"

text \<open>
  The test of line 58, left to right with Python's short-circuit \<^verbatim>\<open>or\<close>:
  \<^verbatim>\<open>self.api_key is None or self.api_key.strip() == '' or self.secret is None or
  self.secret.strip() == ''\<close>. By then \<^verbatim>\<open>self.secret\<close> is the byte string of line 55.
\<close>

definition credentials_missing :: "pyval \<Rightarrow> string \<Rightarrow> py_error + bool" where
  "credentials_missing k secret_bytes =
     (if k = PNone then Inr True
      else (case py_strip k of
              Inl e \<Rightarrow> Inl e
            | Inr k' \<Rightarrow>
                if py_eq_str k' '''' then Inr True
                else if PBytes secret_bytes = PNone then Inr True
                else (case py_strip (PBytes secret_bytes) of
                        Inl e \<Rightarrow> Inl e
                      | Inr s' \<Rightarrow> Inr (py_eq_str s' ''''))))"

text \<open>
  \<^verbatim>\<open>Poloniex.__init__\<close>. Opening no connection, it either raises or returns the client.
\<close>

definition init :: "files \<Rightarrow> string option \<Rightarrow> pyval \<Rightarrow> pyval \<Rightarrow> py_error + client" where
  "init fs config_file_path api_key_arg secret_arg =
     (if config_file_path = None \<and> (api_key_arg = PNone \<or> secret_arg = PNone)
      then Inl no_pair_given
      else
        (case (case config_file_path of
                 Some path \<Rightarrow> snd (get_credentials fs path)
               | None \<Rightarrow> Inr (api_key_arg, secret_arg)) of
           Inl e \<Rightarrow> Inl e
         | Inr (k, s) \<Rightarrow>
             (case py_encode s of
                Inl e \<Rightarrow> Inl e
              | Inr secret_bytes \<Rightarrow>
                  (case credentials_missing k secret_bytes of
                     Inl e \<Rightarrow> Inl e
                   | Inr True \<Rightarrow> Inl no_credentials
                   | Inr False \<Rightarrow>
                       Inr \<lparr>api_key = k, secret = secret_bytes,
                            api_endpoint = ''https://api.poloniex.com/'',
                            private_api_endpoint = ''https://www.poloniex.com/'',
                            runner = None,
                            websockets_endpoint = ''wss://api.poloniex.com/''\<rparr>))))"

text \<open>
  The pair each format yields when it succeeds: both options of section \<^verbatim>\<open>CONFIG\<close>
  of an INI file, the two entries of a JSON object (\<^verbatim>\<open>None\<close> for an absent one), the two
  attributes of a module.
\<close>

definition ini_pair :: "files \<Rightarrow> string \<Rightarrow> (pyval \<times> pyval) option" where
  "ini_pair fs path =
     (case ini_file fs path of
        None \<Rightarrow> None
      | Some g \<Rightarrow>
          (case (g ''CONFIG'' ''apiKey'', g ''CONFIG'' ''secret'') of
             (Some k, Some s) \<Rightarrow> Some (PStr k, PStr s)
           | _ \<Rightarrow> None))"

definition dict_get :: "(string \<times> pyval) list \<Rightarrow> string \<Rightarrow> pyval" where
  "dict_get kvs k = (case map_of kvs k of None \<Rightarrow> PNone | Some v \<Rightarrow> v)"

definition json_pair :: "files \<Rightarrow> string \<Rightarrow> (pyval \<times> pyval) option" where
  "json_pair fs path =
     (case json_file fs path of
        Some (PDict kvs) \<Rightarrow> Some (dict_get kvs ''apiKey'', dict_get kvs ''secret'')
      | _ \<Rightarrow> None)"

definition py_pair :: "files \<Rightarrow> string \<Rightarrow> (pyval \<times> pyval) option" where
  "py_pair fs path =
     (case py_file fs path of
        None \<Rightarrow> None
      | Some config \<Rightarrow>
          (case (map_of config ''api_key'', map_of config ''secret'') of
             (Some k, Some s) \<Rightarrow> Some (k, s)
           | _ \<Rightarrow> None))"

text \<open>
  The loader as the specification words it: an ordered list of parser attempts, each
  with an optional result; stop at the first success, and raise the combined
  configuration error only when all are exhausted. The first component lists the formats
  tried.
\<close>

fun first_success ::
  "(config_format \<times> (pyval \<times> pyval) option) list
   \<Rightarrow> config_format list \<times> (py_error + pyval \<times> pyval)" where
  "first_success [] = ([], Inl not_configured)"
| "first_success ((f, r) # rest) =
     (case r of
        Some c \<Rightarrow> ([f], Inr c)
      | None \<Rightarrow> (f # fst (first_success rest), snd (first_success rest)))"

section \<open>The request signer\<close>

text \<open>
  \<^verbatim>\<open>int(time.time() * 1000)\<close>: the clock reading is a parameter of the model, a number
  of seconds taken as a real; \<^verbatim>\<open>int\<close> truncates towards zero.
\<close>

definition py_int :: "real \<Rightarrow> int" where
  "py_int x = (if 0 \<le> x then \<lfloor>x\<rfloor> else \<lceil>x\<rceil>)"

definition mint_nonce :: "real \<Rightarrow> int" where
  "mint_nonce now = py_int (now * 1000)"

text \<open>\<^verbatim>\<open>str\<close> of an integer: its decimal digits, with a minus sign when negative.\<close>

definition digit_char :: "nat \<Rightarrow> char" where
  "digit_char d = ''0123456789'' ! d"

fun str_nat :: "nat \<Rightarrow> string" where
  "str_nat n = (if n < 10 then [digit_char n] else str_nat (n div 10) @ [digit_char (n mod 10)])"

declare str_nat.simps [simp del]

definition str_int :: "int \<Rightarrow> string" where
  "str_int i = (if i < 0 then CHR ''-'' # str_nat (nat (- i)) else str_nat (nat i))"

text \<open>\<^verbatim>\<open>int\<close> of a string of decimal digits, the inverse reading.\<close>

definition digit_val :: "char \<Rightarrow> nat" where
  "digit_val c = of_char c - 48"

definition nat_of_digits :: "string \<Rightarrow> nat" where
  "nat_of_digits ds = foldl (\<lambda>a c. 10 * a + digit_val c) 0 ds"

definition py_str :: "qval \<Rightarrow> string" where
  "py_str v = (case v of QStr s \<Rightarrow> s | QInt i \<Rightarrow> str_int i)"

text \<open>
  \<^verbatim>\<open>urllib.parse.urlencode\<close> of a dictionary, as CPython (3.7 and later) computes it:
  every key and every value goes through \<^verbatim>\<open>str\<close> and \<^verbatim>\<open>quote_plus\<close>, which keeps
  letters, digits and \<^verbatim>\<open>_.-~\<close>, writes a space as \<^verbatim>\<open>+\<close> and any other byte as \<^verbatim>\<open>%XX\<close>
  in upper-case hexadecimal; the pairs \<^verbatim>\<open>key=value\<close> are joined with \<^verbatim>\<open>&\<close> in the
  dictionary's order. \<^verbatim>\<open>.encode('utf8')\<close> of the ASCII result is the same characters.
\<close>

definition is_digit :: "char \<Rightarrow> bool" where
  "is_digit c = (let n = (of_char c :: nat) in 48 \<le> n \<and> n \<le> 57)"

definition is_alpha :: "char \<Rightarrow> bool" where
  "is_alpha c = (let n = (of_char c :: nat) in (65 \<le> n \<and> n \<le> 90) \<or> (97 \<le> n \<and> n \<le> 122))"

definition always_safe :: "char \<Rightarrow> bool" where
  "always_safe c = (is_alpha c \<or> is_digit c \<or> c \<in> set ''_.-~'')"

definition hex_char :: "nat \<Rightarrow> char" where
  "hex_char d = ''0123456789ABCDEF'' ! d"

definition quote_char :: "char \<Rightarrow> string" where
  "quote_char c =
     (if c = CHR '' '' then ''+''
      else if always_safe c then [c]
      else [CHR ''%'', hex_char ((of_char c :: nat) div 16), hex_char ((of_char c :: nat) mod 16)])"

definition quote_plus :: "string \<Rightarrow> string" where
  "quote_plus s = concat (map quote_char s)"

fun join :: "string \<Rightarrow> string list \<Rightarrow> string" where
  "join sep [] = []"
| "join sep [x] = x"
| "join sep (x # y # ys) = x @ sep @ join sep (y # ys)"

definition encode_pair :: "string \<times> qval \<Rightarrow> string" where
  "encode_pair kv = quote_plus (fst kv) @ ''='' @ quote_plus (py_str (snd kv))"

definition urlencode :: "(string \<times> qval) list \<Rightarrow> string" where
  "urlencode query = join ''&'' (map encode_pair query)"

text \<open>
  \<^verbatim>\<open>__prepare_request_data\<close>. \<^verbatim>\<open>params['nonce'] = ...\<close> replaces the value of an existing
  key where it stands and appends a new key at the end, which is \<open>AList.update\<close>.
  \<^verbatim>\<open>hmac.new(key, msg, hashlib.sha512).hexdigest()\<close> is the parameter \<open>hmac_sha512_hex\<close>,
  a function of the key and the message.
\<close>

definition prepare_request_data ::
  "(string \<Rightarrow> string \<Rightarrow> string) \<Rightarrow> client \<Rightarrow> real \<Rightarrow> (string \<times> qval) list
   \<Rightarrow> (string \<times> qval) list \<times> (string \<times> pyval) list" where
  "prepare_request_data hmac_sha512_hex self now params =
     (let params = AList.update ''nonce'' (QInt (mint_nonce now)) params;
          encoded_params = urlencode params;
          headers = [(''Sign'', PStr (hmac_sha512_hex (secret self) encoded_params)),
                     (''Key'', api_key self)]
      in (params, headers))"

text \<open>
  A private method, \<^verbatim>\<open>balances\<close>: the signed parameters are the body and the headers
  of \<^verbatim>\<open>requests.post\<close>.
\<close>

record http_post =
  post_url :: string
  post_data :: "(string \<times> qval) list"
  post_headers :: "(string \<times> pyval) list"

definition balances :: "(string \<Rightarrow> string \<Rightarrow> string) \<Rightarrow> client \<Rightarrow> real \<Rightarrow> http_post" where
  "balances hmac_sha512_hex self now =
     (let resource = ''tradingApi'';
          params = [(''command'', QStr ''returnBalances'')];
          (params, headers) = prepare_request_data hmac_sha512_hex self now params
      in \<lparr>post_url = private_api_endpoint self @ resource, post_data = params,
           post_headers = headers\<rparr>)"

section \<open>The push normalizer\<close>

subsection \<open>Decimals\<close>

text \<open>
  A \<^verbatim>\<open>decimal.Decimal\<close> is a sign, a coefficient and an exponent, or one of the special
  values: nothing is rounded. \<^verbatim>\<open>Decimal('0.05')\<close> is sign \<open>False\<close>, coefficient \<open>5\<close>,
  exponent \<open>-2\<close>.
\<close>

datatype decimal =
    DFinite bool nat int
  | DInfinity bool
  | DNaN bool bool nat

definition decimal_value :: "decimal \<Rightarrow> real option" where
  "decimal_value d =
     (case d of
        DFinite sign coefficient exponent \<Rightarrow>
          Some ((if sign then - 1 else 1)
                * (if 0 \<le> exponent then real coefficient * 10 ^ nat exponent
                   else real coefficient / 10 ^ nat (- exponent)))
      | _ \<Rightarrow> None)"

text \<open>
  \<^verbatim>\<open>Decimal(text)\<close> on ASCII text, after the grammar of the \<^verbatim>\<open>decimal\<close> module: the text
  is stripped of surrounding whitespace and of underscores, then it must be, in any
  letter case, an optional sign followed by digits with an optional point and an optional
  exponent \<^verbatim>\<open>E[+-]digits\<close> (with a digit before or right after the point), or by
  \<^verbatim>\<open>Inf\<close>, \<^verbatim>\<open>Infinity\<close>, \<^verbatim>\<open>NaN\<close> or \<^verbatim>\<open>sNaN\<close> with optional payload digits. Anything else
  raises \<^verbatim>\<open>InvalidOperation\<close>.
\<close>

definition to_lower :: "char \<Rightarrow> char" where
  "to_lower c =
     (case map_of (zip ''ABCDEFGHIJKLMNOPQRSTUVWXYZ'' ''abcdefghijklmnopqrstuvwxyz'') c of
        Some l \<Rightarrow> l
      | None \<Rightarrow> c)"

definition parse_sign :: "string \<Rightarrow> bool \<times> string" where
  "parse_sign s =
     (case s of
        [] \<Rightarrow> (False, [])
      | c # r \<Rightarrow>
          if c = CHR ''-'' then (True, r)
          else if c = CHR ''+'' then (False, r)
          else (False, s))"

definition parse_exponent :: "string \<Rightarrow> int option" where
  "parse_exponent s =
     (case s of
        [] \<Rightarrow> Some 0
      | c # r \<Rightarrow>
          if to_lower c = CHR ''e'' then
            (let (negative, ds) = parse_sign r
             in if ds \<noteq> [] \<and> list_all is_digit ds
                then Some (if negative then - int (nat_of_digits ds) else int (nat_of_digits ds))
                else None)
          else None)"

definition parse_number :: "bool \<Rightarrow> string \<Rightarrow> decimal option" where
  "parse_number sign s =
     (let intpart = takeWhile is_digit s;
          r1 = dropWhile is_digit s;
          (fracpart, r2) =
            (case r1 of
               [] \<Rightarrow> ([], [])
             | c # r \<Rightarrow>
                 if c = CHR ''.'' then (takeWhile is_digit r, dropWhile is_digit r)
                 else ([], r1))
      in if intpart = [] \<and> fracpart = [] then None
         else (case parse_exponent r2 of
                 None \<Rightarrow> None
               | Some e \<Rightarrow>
                   Some (DFinite sign (nat_of_digits (intpart @ fracpart))
                           (e - int (length fracpart)))))"

definition parse_special :: "bool \<Rightarrow> string \<Rightarrow> decimal option" where
  "parse_special sign s =
     (let l = map to_lower s
      in if l = ''inf'' \<or> l = ''infinity'' then Some (DInfinity sign)
         else if take 3 l = ''nan'' \<and> list_all is_digit (drop 3 l)
           then Some (DNaN sign False (nat_of_digits (drop 3 l)))
         else if take 4 l = ''snan'' \<and> list_all is_digit (drop 4 l)
           then Some (DNaN sign True (nat_of_digits (drop 4 l)))
         else None)"

definition Decimal_of_str :: "string \<Rightarrow> decimal option" where
  "Decimal_of_str s =
     (let (sign, body) = parse_sign (filter (\<lambda>c. c \<noteq> CHR ''_'') (strip_with is_space s))
      in (case parse_number sign body of
            Some d \<Rightarrow> Some d
          | None \<Rightarrow> parse_special sign body))"

text \<open>
  \<^verbatim>\<open>decimal.Decimal(v)\<close>: text is parsed, an integer (and so a boolean) is taken exactly,
  and \<^verbatim>\<open>None\<close>, byte strings and dictionaries are a \<^verbatim>\<open>TypeError\<close>.
\<close>

definition Decimal :: "pyval \<Rightarrow> py_error + decimal" where
  "Decimal v =
     (case v of
        PStr s \<Rightarrow> (case Decimal_of_str s of None \<Rightarrow> Inl InvalidOperation | Some d \<Rightarrow> Inr d)
      | PInt i \<Rightarrow> Inr (DFinite (i < 0) (nat \<bar>i\<bar>) 0)
      | PBool b \<Rightarrow> Inr (DFinite False (if b then 1 else 0) 0)
      | _ \<Rightarrow> Inl TypeError)"

subsection \<open>Dates\<close>

text \<open>
  \<^verbatim>\<open>datetime.datetime.strptime(text, '%Y-%m-%d %H:%M:%S')\<close> on ASCII text. The format is
  a regular expression matched at the start of the text, alternatives tried in order
  with backtracking: four digits for \<^verbatim>\<open>%Y\<close>, \<^verbatim>\<open>1[0-2]|0[1-9]|[1-9]\<close> for \<^verbatim>\<open>%m\<close>,
  \<^verbatim>\<open>3[01]|[12]\d|0[1-9]|[1-9]| [1-9]\<close> for \<^verbatim>\<open>%d\<close>, one or more whitespace characters for
  the blank, \<^verbatim>\<open>2[0-3]|[0-1]\d|\d\<close> for \<^verbatim>\<open>%H\<close>, \<^verbatim>\<open>[0-5]\d|\d\<close> for \<^verbatim>\<open>%M\<close> and
  \<^verbatim>\<open>6[01]|[0-5]\d|\d\<close> for \<^verbatim>\<open>%S\<close>. A matcher returns every way to match a prefix, as
  the pairs of the matched text and the rest, in the order the expression tries them.
  No match, text left over after the first match, or a date the calendar does not have
  is a \<^verbatim>\<open>ValueError\<close>.
\<close>

record datetime =
  year :: nat
  month :: nat
  day :: nat
  hour :: nat
  minute :: nat
  second :: nat

definition between :: "char \<Rightarrow> char \<Rightarrow> char \<Rightarrow> bool" where
  "between lo hi c = ((of_char lo :: nat) \<le> of_char c \<and> (of_char c :: nat) \<le> of_char hi)"

definition one_of :: "(char \<Rightarrow> bool) \<Rightarrow> string \<Rightarrow> (string \<times> string) list" where
  "one_of p s = (case s of a # r \<Rightarrow> if p a then [([a], r)] else [] | _ \<Rightarrow> [])"

definition two_of ::
  "(char \<Rightarrow> bool) \<Rightarrow> (char \<Rightarrow> bool) \<Rightarrow> string \<Rightarrow> (string \<times> string) list" where
  "two_of p q s = (case s of a # b # r \<Rightarrow> if p a \<and> q b then [([a, b], r)] else [] | _ \<Rightarrow> [])"

definition lit :: "char \<Rightarrow> string \<Rightarrow> string list" where
  "lit c s = (case s of a # r \<Rightarrow> if a = c then [r] else [] | _ \<Rightarrow> [])"

definition re_Y :: "string \<Rightarrow> (string \<times> string) list" where
  "re_Y s =
     (case s of
        a # b # c # d # r \<Rightarrow> if list_all is_digit [a, b, c, d] then [([a, b, c, d], r)] else []
      | _ \<Rightarrow> [])"

definition re_m :: "string \<Rightarrow> (string \<times> string) list" where
  "re_m s =
     two_of ((=) CHR ''1'') (between CHR ''0'' CHR ''2'') s
     @ two_of ((=) CHR ''0'') (between CHR ''1'' CHR ''9'') s
     @ one_of (between CHR ''1'' CHR ''9'') s"

definition re_d :: "string \<Rightarrow> (string \<times> string) list" where
  "re_d s =
     two_of ((=) CHR ''3'') (between CHR ''0'' CHR ''1'') s
     @ two_of (between CHR ''1'' CHR ''2'') is_digit s
     @ two_of ((=) CHR ''0'') (between CHR ''1'' CHR ''9'') s
     @ one_of (between CHR ''1'' CHR ''9'') s
     @ two_of ((=) CHR '' '') (between CHR ''1'' CHR ''9'') s"

definition re_H :: "string \<Rightarrow> (string \<times> string) list" where
  "re_H s =
     two_of ((=) CHR ''2'') (between CHR ''0'' CHR ''3'') s
     @ two_of (between CHR ''0'' CHR ''1'') is_digit s
     @ one_of is_digit s"

definition re_M :: "string \<Rightarrow> (string \<times> string) list" where
  "re_M s = two_of (between CHR ''0'' CHR ''5'') is_digit s @ one_of is_digit s"

definition re_S :: "string \<Rightarrow> (string \<times> string) list" where
  "re_S s =
     two_of ((=) CHR ''6'') (between CHR ''0'' CHR ''1'') s
     @ two_of (between CHR ''0'' CHR ''5'') is_digit s
     @ one_of is_digit s"

definition re_space :: "string \<Rightarrow> string list" where
  "re_space s = map (\<lambda>k. drop k s) (rev [1 ..< Suc (length (takeWhile is_space s))])"

definition match_format ::
  "string \<Rightarrow> ((string \<times> string \<times> string \<times> string \<times> string \<times> string) \<times> string) list" where
  "match_format s =
     [((Y, m, d, H, M, S), r).
        (Y, r1) \<leftarrow> re_Y s, r2 \<leftarrow> lit CHR ''-'' r1,
        (m, r3) \<leftarrow> re_m r2, r4 \<leftarrow> lit CHR ''-'' r3,
        (d, r5) \<leftarrow> re_d r4, r6 \<leftarrow> re_space r5,
        (H, r7) \<leftarrow> re_H r6, r8 \<leftarrow> lit CHR '':'' r7,
        (M, r9) \<leftarrow> re_M r8, r10 \<leftarrow> lit CHR '':'' r9,
        (S, r) \<leftarrow> re_S r10]"

text \<open>\<^verbatim>\<open>int\<close> of a matched field; the day may carry a leading blank.\<close>

definition field_int :: "string \<Rightarrow> nat" where
  "field_int tok = nat_of_digits (filter is_digit tok)"

definition is_leap :: "nat \<Rightarrow> bool" where
  "is_leap y = ((y mod 4 = 0 \<and> y mod 100 \<noteq> 0) \<or> y mod 400 = 0)"

definition days_in_month :: "nat \<Rightarrow> nat \<Rightarrow> nat" where
  "days_in_month y m =
     (if m = 2 then (if is_leap y then 29 else 28)
      else if m = 4 \<or> m = 6 \<or> m = 9 \<or> m = 11 then 30
      else 31)"

definition strptime :: "string \<Rightarrow> py_error + datetime" where
  "strptime s =
     (case match_format s of
        [] \<Rightarrow> Inl ValueError
      | ((Y, m, d, H, M, S), r) # _ \<Rightarrow>
          if r \<noteq> [] then Inl ValueError
          else if field_int Y < 1 \<or> days_in_month (field_int Y) (field_int m) < field_int d
                  \<or> 59 < field_int S
            then Inl ValueError
          else Inr \<lparr>year = field_int Y, month = field_int m, day = field_int d,
                    hour = field_int H, minute = field_int M, second = field_int S\<rparr>)"

definition py_strptime :: "pyval \<Rightarrow> py_error + datetime" where
  "py_strptime v = (case v of PStr s \<Rightarrow> strptime s | _ \<Rightarrow> Inl TypeError)"

subsection \<open>The wrappers\<close>

text \<open>
  Statements run in order until one raises: \<open>and_then r f\<close> continues with the value
  of \<open>r\<close> or stops with its exception.
\<close>

definition and_then :: "'e + 'a \<Rightarrow> ('a \<Rightarrow> 'e + 'b) \<Rightarrow> 'e + 'b" where
  "and_then r f = (case r of Inl e \<Rightarrow> Inl e | Inr x \<Rightarrow> f x)"

definition arg_at :: "pyval list \<Rightarrow> nat \<Rightarrow> py_error + pyval" where
  "arg_at args i = (if i < length args then Inr (args ! i) else Inl IndexError)"

text \<open>
  \<^verbatim>\<open>ticker_wrapper\<close>: the wrapper either raises or calls the user's callback once; the
  arguments of that call are its value.
\<close>

record ticker_call =
  currency_pair :: pyval
  last' :: decimal
  lowest_ask :: decimal
  highest_bid :: decimal
  change :: decimal
  base_volume :: decimal
  quote_volume :: decimal
  is_frozen :: bool
  high :: decimal
  low :: decimal

definition ticker_wrapper :: "pyval list \<Rightarrow> py_error + ticker_call" where
  "ticker_wrapper args =
     and_then (arg_at args 0) (\<lambda>currency_pair.
     and_then (and_then (arg_at args 1) Decimal) (\<lambda>last.
     and_then (and_then (arg_at args 2) Decimal) (\<lambda>lowest_ask.
     and_then (and_then (arg_at args 3) Decimal) (\<lambda>highest_bid.
     and_then (and_then (arg_at args 4) Decimal) (\<lambda>change.
     and_then (and_then (arg_at args 5) Decimal) (\<lambda>base_volume.
     and_then (and_then (arg_at args 6) Decimal) (\<lambda>quote_volume.
     and_then (arg_at args 7) (\<lambda>frozen.
     and_then (and_then (arg_at args 8) Decimal) (\<lambda>high.
     and_then (and_then (arg_at args 9) Decimal) (\<lambda>low.
       Inr \<lparr>currency_pair = currency_pair, last' = last, lowest_ask = lowest_ask,
            highest_bid = highest_bid, change = change, base_volume = base_volume,
            quote_volume = quote_volume, is_frozen = py_eq_int frozen 1,
            high = high, low = low\<rparr>))))))))))"

text \<open>
  \<^verbatim>\<open>order_book_wrapper\<close>. The three kinds of \<^verbatim>\<open>blob\<close> are dictionaries with fixed keys.
\<close>

record modification =
  mod_amount :: decimal
  mod_rate :: decimal
  mod_type :: pyval

record removal =
  rem_rate :: decimal
  rem_type :: pyval

record trade =
  tradeID :: pyval
  trade_rate :: decimal
  trade_amount :: decimal
  trade_total :: decimal
  trade_date :: datetime
  trade_type :: pyval

datatype blob = Modification modification | Removal removal | Trade trade

text \<open>The body of the loop up to the \<^verbatim>\<open>append\<close>: the blob built from one entry.\<close>

definition order_book_entry :: "pyval \<Rightarrow> py_error + blob" where
  "order_book_entry arg =
     and_then (py_get arg ''data'') (\<lambda>data.
     and_then (py_get arg ''type'') (\<lambda>tag.
       if py_eq_str tag ''orderBookModify'' then
         and_then (and_then (py_get data ''amount'') Decimal) (\<lambda>amount.
         and_then (and_then (py_get data ''rate'') Decimal) (\<lambda>rate.
         and_then (py_get data ''type'') (\<lambda>ty.
           Inr (Modification \<lparr>mod_amount = amount, mod_rate = rate, mod_type = ty\<rparr>))))
       else if py_eq_str tag ''orderBookRemove'' then
         and_then (and_then (py_get data ''rate'') Decimal) (\<lambda>rate.
         and_then (py_get data ''type'') (\<lambda>ty.
           Inr (Removal \<lparr>rem_rate = rate, rem_type = ty\<rparr>)))
       else
         and_then (py_get data ''tradeID'') (\<lambda>trade_id.
         and_then (and_then (py_get data ''rate'') Decimal) (\<lambda>rate.
         and_then (and_then (py_get data ''amount'') Decimal) (\<lambda>amount.
         and_then (and_then (py_get data ''total'') Decimal) (\<lambda>total.
         and_then (and_then (py_get data ''date'') py_strptime) (\<lambda>date.
         and_then (py_get data ''type'') (\<lambda>ty.
           Inr (Trade \<lparr>tradeID = trade_id, trade_rate = rate, trade_amount = amount,
                       trade_total = total, trade_date = date, trade_type = ty\<rparr>)))))))))"

text \<open>
  The state of the loop: the three lists, and what \<^verbatim>\<open>pprint\<close> has written (every
  trade blob is printed before it is appended).
\<close>

record ob_state =
  modifications :: "modification list"
  removals :: "removal list"
  trades :: "trade list"
  stdout :: "trade list"

definition order_book_step :: "ob_state \<Rightarrow> pyval \<Rightarrow> py_error + ob_state" where
  "order_book_step st arg =
     (case order_book_entry arg of
        Inl e \<Rightarrow> Inl e
      | Inr (Modification b) \<Rightarrow> Inr (st\<lparr>modifications := modifications st @ [b]\<rparr>)
      | Inr (Removal b) \<Rightarrow> Inr (st\<lparr>removals := removals st @ [b]\<rparr>)
      | Inr (Trade b) \<Rightarrow> Inr (st\<lparr>trades := trades st @ [b], stdout := stdout st @ [b]\<rparr>))"

text \<open>The \<^verbatim>\<open>for\<close> loop: it ends with the state, or at an exception with the state then.\<close>

fun order_book_loop :: "ob_state \<Rightarrow> pyval list \<Rightarrow> py_error \<times> ob_state + ob_state" where
  "order_book_loop st [] = Inr st"
| "order_book_loop st (arg # args) =
     (case order_book_step st arg of
        Inl e \<Rightarrow> Inl (e, st)
      | Inr st' \<Rightarrow> order_book_loop st' args)"

text \<open>
  One run of the wrapper on a batch: what it printed, the exception it raised if any,
  and the calls it made to the user's callback, each with its three lists and the
  keyword arguments.
\<close>

record ob_call =
  call_modifications :: "modification list"
  call_removals :: "removal list"
  call_trades :: "trade list"
  call_kwargs :: "(string \<times> pyval) list"

record ob_outcome =
  printed :: "trade list"
  raised :: "py_error option"
  calls :: "ob_call list"

definition order_book_wrapper :: "pyval list \<Rightarrow> (string \<times> pyval) list \<Rightarrow> ob_outcome" where
  "order_book_wrapper args kwargs =
     (case order_book_loop \<lparr>modifications = [], removals = [], trades = [], stdout = []\<rparr> args of
        Inl (e, st) \<Rightarrow> \<lparr>printed = stdout st, raised = Some e, calls = []\<rparr>
      | Inr st \<Rightarrow>
          \<lparr>printed = stdout st, raised = None,
           calls = [\<lparr>call_modifications = modifications st, call_removals = removals st,
                     call_trades = trades st, call_kwargs = kwargs\<rparr>]\<rparr>)"

text \<open>
  The tag that sorts an entry, \<^verbatim>\<open>arg.get('type')\<close>, and the three partitions as the
  \<^verbatim>\<open>if\<close>/\<^verbatim>\<open>elif\<close>/\<^verbatim>\<open>else\<close> makes them.
\<close>

datatype kind = KModify | KRemove | KTrade

definition entry_kind :: "pyval \<Rightarrow> kind" where
  "entry_kind arg =
     (case py_get arg ''type'' of
        Inr tag \<Rightarrow>
          if py_eq_str tag ''orderBookModify'' then KModify
          else if py_eq_str tag ''orderBookRemove'' then KRemove
          else KTrade
      | Inl e \<Rightarrow> KTrade)"

text \<open>
  The words of the claims about failure. A field holds a malformed number when it is
  text that \<^verbatim>\<open>Decimal\<close> refuses, a malformed date when it is text that \<^verbatim>\<open>strptime\<close>
  refuses. An entry is malformed when a field that its kind converts is: \<^verbatim>\<open>amount\<close> and
  \<^verbatim>\<open>rate\<close> of a modification, \<^verbatim>\<open>rate\<close> of a removal, \<^verbatim>\<open>rate\<close>, \<^verbatim>\<open>amount\<close>, \<^verbatim>\<open>total\<close> and
  \<^verbatim>\<open>date\<close> of a trade. An entry is textual when it is a dictionary whose \<^verbatim>\<open>data\<close> is a
  dictionary in which every converted field is text.
\<close>

definition is_text :: "pyval \<Rightarrow> bool" where
  "is_text v = (case v of PStr s \<Rightarrow> True | _ \<Rightarrow> False)"

definition bad_number :: "pyval \<Rightarrow> bool" where
  "bad_number v = (case v of PStr s \<Rightarrow> Decimal_of_str s = None | _ \<Rightarrow> False)"

definition bad_date :: "pyval \<Rightarrow> bool" where
  "bad_date v = (case v of PStr s \<Rightarrow> strptime s = Inl ValueError | _ \<Rightarrow> False)"

definition numeric_fields :: "kind \<Rightarrow> string list" where
  "numeric_fields k =
     (case k of
        KModify \<Rightarrow> [''amount'', ''rate'']
      | KRemove \<Rightarrow> [''rate'']
      | KTrade \<Rightarrow> [''rate'', ''amount'', ''total''])"

definition entry_data :: "pyval \<Rightarrow> (string \<times> pyval) list option" where
  "entry_data arg =
     (case arg of
        PDict kvs \<Rightarrow> (case dict_get kvs ''data'' of PDict d \<Rightarrow> Some d | _ \<Rightarrow> None)
      | _ \<Rightarrow> None)"

definition malformed :: "pyval \<Rightarrow> bool" where
  "malformed arg =
     (case entry_data arg of
        None \<Rightarrow> False
      | Some d \<Rightarrow>
          list_ex (\<lambda>k. bad_number (dict_get d k)) (numeric_fields (entry_kind arg))
          \<or> (entry_kind arg = KTrade \<and> bad_date (dict_get d ''date'')))"

definition textual :: "pyval \<Rightarrow> bool" where
  "textual arg =
     (case entry_data arg of
        None \<Rightarrow> False
      | Some d \<Rightarrow>
          list_all (\<lambda>k. is_text (dict_get d k)) (numeric_fields (entry_kind arg))
          \<and> (entry_kind arg = KTrade \<longrightarrow> is_text (dict_get d ''date'')))"

section \<open>The public endpoint commands\<close>

text \<open>
  C9, as the code has it: \<^verbatim>\<open>trade_history\<close> and \<^verbatim>\<open>chart_data\<close> both send
  \<^verbatim>\<open>command: returnOrderBook\<close> to the public endpoint whatever their arguments, the
  command of \<^verbatim>\<open>order_book\<close>; \<^verbatim>\<open>loan_orders\<close> sends \<^verbatim>\<open>command: returnLoanOrders\<close>.
\<close>

theorem public_commands:
  "map_of (get_params (trade_history self pair start end')) ''command''
     = Some (QStr ''returnOrderBook'')
   \<and> map_of (get_params (chart_data self pair start end' period)) ''command''
     = Some (QStr ''returnOrderBook'')
   \<and> map_of (get_params (loan_orders self currency)) ''command''
     = Some (QStr ''returnLoanOrders'')
   \<and> get_url (trade_history self pair start end') = api_endpoint self @ ''public''
   \<and> get_url (chart_data self pair start end' period) = api_endpoint self @ ''public''
   \<and> get_url (loan_orders self currency) = api_endpoint self @ ''public''"
  by (simp add: trade_history_def chart_data_def loan_orders_def)

text \<open>
  C9 as stated fails for \<^verbatim>\<open>loan_orders\<close>: its command is not \<^verbatim>\<open>returnOrderBook\<close>.
\<close>

theorem loan_orders_command_counterexample:
  "map_of (get_params (loan_orders
      \<lparr>api_key = PStr ''key'', secret = ''secret'',
       api_endpoint = ''https://api.poloniex.com/'',
       private_api_endpoint = ''https://www.poloniex.com/'',
       runner = None, websockets_endpoint = ''wss://api.poloniex.com/''\<rparr>
      (QStr ''BTC''))) ''command''
   \<noteq> Some (QStr ''returnOrderBook'')"
  by (simp add: loan_orders_def)

section \<open>Loading credentials\<close>

lemma try_ini_pair:
  "try_ini fs path PNone PNone =
     (case ini_pair fs path of
        Some (k, s) \<Rightarrow> Return k s
      | None \<Rightarrow>
          Pass (case ini_file fs path of
                  None \<Rightarrow> PNone
                | Some g \<Rightarrow> (case g ''CONFIG'' ''apiKey'' of None \<Rightarrow> PNone | Some k \<Rightarrow> PStr k))
               PNone)"
  by (simp add: try_ini_def ini_pair_def split: option.splits)

lemma try_json_pair:
  "try_json fs path k0 s0 =
     (case json_pair fs path of Some (k, s) \<Rightarrow> Return k s | None \<Rightarrow> Pass k0 s0)"
  by (simp add: try_json_def json_pair_def py_get_def dict_get_def
           split: option.splits pyval.splits)

lemma try_py_secret:
  "try_py fs path k0 PNone =
     (case py_pair fs path of Some (k, s) \<Rightarrow> Return k s | None \<Rightarrow> try_py fs path k0 PNone)
   \<and> (py_pair fs path = None \<longrightarrow> (\<exists>k. try_py fs path k0 PNone = Pass k PNone))"
  by (simp add: try_py_def py_pair_def split: option.splits)

lemma get_credentials_cascade:
  "get_credentials fs path =
     first_success [(INI, ini_pair fs path), (JSON, json_pair fs path), (PY, py_pair fs path)]"
proof (cases "ini_pair fs path")
  case (Some c)
  then show ?thesis
    by (cases c) (simp add: get_credentials_def try_ini_pair)
next
  case ini: None
  show ?thesis
  proof (cases "json_pair fs path")
    case (Some c)
    with ini show ?thesis
      by (cases c) (simp add: get_credentials_def try_ini_pair try_json_pair)
  next
    case json: None
    show ?thesis
    proof (cases "py_pair fs path")
      case (Some c)
      with ini json try_py_secret [of fs path] show ?thesis
        by (cases c) (simp add: get_credentials_def try_ini_pair try_json_pair)
    next
      case None
      with try_py_secret [of fs path] have "\<And>k0. \<exists>k. try_py fs path k0 PNone = Pass k PNone"
        by blast
      then obtain k where
        "try_py fs path
           (case ini_file fs path of
              None \<Rightarrow> PNone
            | Some g \<Rightarrow> (case g ''CONFIG'' ''apiKey'' of None \<Rightarrow> PNone | Some k \<Rightarrow> PStr k))
           PNone = Pass k PNone"
        by blast
      with ini json None show ?thesis
        by (simp add: get_credentials_def try_ini_pair try_json_pair)
    qed
  qed
qed

text \<open>
  C8. \<^verbatim>\<open>__get_credentials\<close> is the ordered cascade INI, JSON, Python source: it returns
  the pair of the first format that succeeds and tries no later one, and it raises the
  configuration error exactly when all three fail. In particular a file that reads as
  INI with an \<^verbatim>\<open>apiKey\<close> but no \<^verbatim>\<open>secret\<close> in section \<^verbatim>\<open>CONFIG\<close> is no INI success: the
  JSON reader is tried next, then the source loader.
\<close>

theorem get_credentials_fallback:
  "get_credentials fs path =
     first_success [(INI, ini_pair fs path), (JSON, json_pair fs path), (PY, py_pair fs path)]
   \<and> (ini_file fs path = Some g \<and> g ''CONFIG'' ''secret'' = None \<longrightarrow>
        get_credentials fs path =
          (case json_pair fs path of
             Some c \<Rightarrow> ([INI, JSON], Inr c)
           | None \<Rightarrow>
               (case py_pair fs path of
                  Some c \<Rightarrow> ([INI, JSON, PY], Inr c)
                | None \<Rightarrow> ([INI, JSON, PY], Inl not_configured))))"
proof -
  have "ini_pair fs path = None" if "ini_file fs path = Some g" "g ''CONFIG'' ''secret'' = None"
    using that by (simp add: ini_pair_def split: option.splits)
  then show ?thesis
    by (auto simp: get_credentials_cascade split: option.splits)
qed

theorem get_credentials_fallback_witness:
  "get_credentials
     \<lparr>ini_file = (\<lambda>p. Some (\<lambda>s k. if k = ''apiKey'' then Some ''abc'' else None)),
      json_file = (\<lambda>p. None),
      py_file = (\<lambda>p. Some [(''api_key'', PStr ''k''), (''secret'', PStr ''s'')])\<rparr>
     ''config.py''
   = ([INI, JSON, PY], Inr (PStr ''k'', PStr ''s''))
   \<and> get_credentials
     \<lparr>ini_file = (\<lambda>p. Some (\<lambda>s k. if k = ''apiKey'' then Some ''abc'' else None)),
      json_file = (\<lambda>p. None),
      py_file = (\<lambda>p. None)\<rparr>
     ''config.ini''
   = ([INI, JSON, PY], Inl not_configured)"
proof -
  let ?g = "\<lambda>(s::string) k. if k = ''apiKey'' then Some ''abc'' else None"
  let ?fs1 = "\<lparr>ini_file = (\<lambda>p. Some ?g), json_file = (\<lambda>p. None),
               py_file = (\<lambda>p. Some [(''api_key'', PStr ''k''), (''secret'', PStr ''s'')])\<rparr>"
  let ?fs2 = "\<lparr>ini_file = (\<lambda>p. Some ?g), json_file = (\<lambda>p. None), py_file = (\<lambda>p. None)\<rparr>"
  have h1: "ini_file ?fs1 ''config.py'' = Some ?g \<and> ?g ''CONFIG'' ''secret'' = None"
    by simp
  have h2: "ini_file ?fs2 ''config.ini'' = Some ?g \<and> ?g ''CONFIG'' ''secret'' = None"
    by simp
  from get_credentials_fallback [of ?fs1 "''config.py''" ?g, THEN conjunct2, rule_format, OF h1]
  have r1: "get_credentials ?fs1 ''config.py'' = ([INI, JSON, PY], Inr (PStr ''k'', PStr ''s''))"
    by (simp add: json_pair_def py_pair_def)
  from get_credentials_fallback [of ?fs2 "''config.ini''" ?g, THEN conjunct2, rule_format, OF h2]
  have r2: "get_credentials ?fs2 ''config.ini'' = ([INI, JSON, PY], Inl not_configured)"
    by (simp add: json_pair_def py_pair_def)
  from r1 r2 show ?thesis by (rule conjI)
qed

text \<open>
  C10. When the INI reading fails and the file decodes as a JSON object, the loader
  returns after the JSON attempt with \<^verbatim>\<open>blob.get('apiKey')\<close> and \<^verbatim>\<open>blob.get('secret')\<close>,
  \<^verbatim>\<open>None\<close> for an absent key: the source loader is not tried and the configuration
  error is not raised. The constructor then fails on its own: with no secret,
  \<^verbatim>\<open>None.encode\<close> is an \<^verbatim>\<open>AttributeError\<close>; with a text secret and no key, line 58
  raises \<^verbatim>\<open>No credentials were found\<close>.
\<close>

theorem json_object_missing_keys:
  assumes "ini_pair fs path = None" and "json_file fs path = Some (PDict kvs)"
  shows "get_credentials fs path
           = ([INI, JSON], Inr (dict_get kvs ''apiKey'', dict_get kvs ''secret''))
         \<and> (map_of kvs ''secret'' = None \<longrightarrow>
              dict_get kvs ''secret'' = PNone
              \<and> init fs (Some path) a b = Inl AttributeError)
         \<and> (map_of kvs ''apiKey'' = None \<longrightarrow>
              dict_get kvs ''apiKey'' = PNone
              \<and> (\<forall>s. map_of kvs ''secret'' = Some (PStr s) \<longrightarrow>
                     init fs (Some path) a b = Inl no_credentials))
         \<and> no_credentials \<noteq> not_configured"
proof -
  have creds: "get_credentials fs path
      = ([INI, JSON], Inr (dict_get kvs ''apiKey'', dict_get kvs ''secret''))"
    using assms by (simp add: get_credentials_cascade json_pair_def)
  have no_secret: "init fs (Some path) a b = Inl AttributeError"
    if "map_of kvs ''secret'' = None"
    using that by (simp add: init_def creds dict_get_def py_encode_def)
  have no_key: "init fs (Some path) a b = Inl no_credentials"
    if "map_of kvs ''apiKey'' = None" "map_of kvs ''secret'' = Some (PStr s)" for s
    using that
    by (simp add: init_def creds dict_get_def py_encode_def credentials_missing_def)
  have "no_credentials \<noteq> not_configured"
    by (simp add: no_credentials_def not_configured_def)
  with creds no_secret no_key show ?thesis
    by (simp add: dict_get_def)
qed

theorem json_object_missing_keys_witness:
  "get_credentials
     \<lparr>ini_file = (\<lambda>p. None),
      json_file = (\<lambda>p. Some (PDict [(''apiKey'', PStr ''abc'')])),
      py_file = (\<lambda>p. Some [(''api_key'', PStr ''k''), (''secret'', PStr ''s'')])\<rparr>
     ''config.json''
   = ([INI, JSON], Inr (PStr ''abc'', PNone))
   \<and> init
     \<lparr>ini_file = (\<lambda>p. None),
      json_file = (\<lambda>p. Some (PDict [(''apiKey'', PStr ''abc'')])),
      py_file = (\<lambda>p. Some [(''api_key'', PStr ''k''), (''secret'', PStr ''s'')])\<rparr>
     (Some ''config.json'') PNone PNone
   = Inl AttributeError"
proof -
  let ?fs = "\<lparr>ini_file = (\<lambda>p. None),
      json_file = (\<lambda>p. Some (PDict [(''apiKey'', PStr ''abc'')])),
      py_file = (\<lambda>p. Some [(''api_key'', PStr ''k''), (''secret'', PStr ''s'')])\<rparr>"
  have h1: "ini_pair ?fs ''config.json'' = None"
    by (simp add: ini_pair_def)
  have h2: "json_file ?fs ''config.json'' = Some (PDict [(''apiKey'', PStr ''abc'')])"
    by simp
  from json_object_missing_keys [OF h1 h2, of PNone PNone] show ?thesis
    by (simp add: dict_get_def)
qed

section \<open>Construction\<close>

lemma init_needs_pair:
  "api_key_arg = PNone \<or> secret_arg = PNone
   \<Longrightarrow> init fs None api_key_arg secret_arg = Inl no_pair_given"
  by (simp add: init_def)

lemma init_blank_key:
  "strip_with is_space k = [] \<Longrightarrow> init fs None (PStr k) (PStr s) = Inl no_credentials"
  by (simp add: init_def py_encode_def credentials_missing_def py_strip_def py_eq_str_def)

lemma init_any_secret:
  "strip_with is_space k \<noteq> [] \<Longrightarrow>
   init fs None (PStr k) (PStr s) =
     Inr \<lparr>api_key = PStr k, secret = s,
          api_endpoint = ''https://api.poloniex.com/'',
          private_api_endpoint = ''https://www.poloniex.com/'',
          runner = None,
          websockets_endpoint = ''wss://api.poloniex.com/''\<rparr>"
  by (simp add: init_def py_encode_def credentials_missing_def py_strip_def py_eq_str_def)

text \<open>
  C7. Without a path and without one of the two arguments the constructor raises at its
  first statement (\<open>init_needs_pair\<close>), and a blank key is refused
  (\<open>init_blank_key\<close>). An empty secret is not: line 55 has turned it into a byte
  string, and the test \<^verbatim>\<open>self.secret.strip() == ''\<close> of line 58 compares a byte string
  with text, which is never equal. The constructor returns a client whose secret is
  empty.
\<close>

theorem init_empty_secret:
  "init fs None (PStr ''key'') (PStr '''') =
     Inr \<lparr>api_key = PStr ''key'', secret = '''',
          api_endpoint = ''https://api.poloniex.com/'',
          private_api_endpoint = ''https://www.poloniex.com/'',
          runner = None,
          websockets_endpoint = ''wss://api.poloniex.com/''\<rparr>"
  by (simp add: init_def py_encode_def credentials_missing_def py_strip_def py_eq_str_def
        strip_with_def is_space_def)

section \<open>Signing requests\<close>

subsection \<open>Integers as text\<close>

lemma digit_val_digit_char: "d < 10 \<Longrightarrow> digit_val (digit_char d) = d"
proof -
  assume "d < 10"
  then have "d \<in> {0, 1, 2, 3, 4, 5, 6, 7, 8, 9}" by auto
  then show ?thesis
    by (auto simp: digit_val_def digit_char_def)
qed

lemma digit_char_not_minus: "d < 10 \<Longrightarrow> digit_char d \<noteq> CHR ''-''"
proof -
  assume "d < 10"
  then have "d \<in> {0, 1, 2, 3, 4, 5, 6, 7, 8, 9}" by auto
  then show ?thesis
    by (auto simp: digit_char_def)
qed

lemma digit_char_plain: "d < 10 \<Longrightarrow> quote_char (digit_char d) = [digit_char d]"
proof -
  assume "d < 10"
  then have "d \<in> {0, 1, 2, 3, 4, 5, 6, 7, 8, 9}" by auto
  then show ?thesis
    by (auto simp: digit_char_def quote_char_def always_safe_def is_digit_def)
qed

lemma nat_of_digits_snoc: "nat_of_digits (ds @ [c]) = 10 * nat_of_digits ds + digit_val c"
  by (simp add: nat_of_digits_def)

lemma nat_of_digits_str_nat: "nat_of_digits (str_nat n) = n"
proof (induction n rule: str_nat.induct)
  case (1 n)
  show ?case
  proof (cases "n < 10")
    case True
    then show ?thesis
      by (subst str_nat.simps) (simp add: nat_of_digits_def digit_val_digit_char)
  next
    case False
    with 1 have "nat_of_digits (str_nat (n div 10)) = n div 10" by simp
    with False show ?thesis
      by (subst str_nat.simps) (simp add: nat_of_digits_snoc digit_val_digit_char)
  qed
qed

lemma str_nat_no_minus: "CHR ''-'' \<notin> set (str_nat n)"
proof (induction n rule: str_nat.induct)
  case (1 n)
  show ?case
  proof (cases "n < 10")
    case True
    with digit_char_not_minus [of n] show ?thesis
      by (subst str_nat.simps) auto
  next
    case False
    with 1 have "CHR ''-'' \<notin> set (str_nat (n div 10))" by simp
    with False digit_char_not_minus [of "n mod 10"] show ?thesis
      by (subst str_nat.simps) auto
  qed
qed

lemma quote_plus_str_nat: "quote_plus (str_nat n) = str_nat n"
proof (induction n rule: str_nat.induct)
  case (1 n)
  show ?case
  proof (cases "n < 10")
    case True
    then show ?thesis
      by (subst (1 2) str_nat.simps) (simp add: quote_plus_def digit_char_plain)
  next
    case False
    with 1 have "quote_plus (str_nat (n div 10)) = str_nat (n div 10)" by simp
    with False show ?thesis
      by (subst (1 2) str_nat.simps) (simp add: quote_plus_def digit_char_plain)
  qed
qed

lemma str_nat_inj: "str_nat m = str_nat n \<Longrightarrow> m = n"
  by (metis nat_of_digits_str_nat)

lemma str_int_inj: "str_int i = str_int j \<Longrightarrow> i = j"
proof -
  assume eq: "str_int i = str_int j"
  have minus: "CHR ''-'' # xs \<noteq> str_nat n" for xs n
    using str_nat_no_minus [of n] by (metis list.set_intros(1))
  show ?thesis
  proof (cases "i < 0"; cases "j < 0")
    assume "i < 0" "j < 0"
    with eq have "nat (- i) = nat (- j)"
      by (simp add: str_int_def str_nat_inj)
    with \<open>i < 0\<close> \<open>j < 0\<close> show ?thesis by simp
  next
    assume "i < 0" "\<not> j < 0"
    with eq minus show ?thesis by (simp add: str_int_def)
  next
    assume "\<not> i < 0" "j < 0"
    with eq minus [of "str_nat (nat (- j))" "nat i"] show ?thesis
      by (simp add: str_int_def)
  next
    assume "\<not> i < 0" "\<not> j < 0"
    with eq have "nat i = nat j"
      by (simp add: str_int_def str_nat_inj)
    with \<open>\<not> i < 0\<close> \<open>\<not> j < 0\<close> show ?thesis by simp
  qed
qed

lemma quote_plus_str_int: "quote_plus (str_int i) = str_int i"
proof -
  have cons: "quote_plus (c # s) = quote_char c @ quote_plus s" for c s
    by (simp add: quote_plus_def)
  have minus: "quote_char CHR ''-'' = ''-''"
    by (simp add: quote_char_def always_safe_def)
  show ?thesis
    by (simp add: str_int_def cons minus quote_plus_str_nat)
qed

subsection \<open>The encoded body around the nonce\<close>

lemma join_cons: "join sep (y # ys) = y @ concat (map (\<lambda>b. sep @ b) ys)"
  by (induction ys arbitrary: y) simp_all

lemma join_around:
  "join sep (xs @ y # ys)
     = concat (map (\<lambda>a. a @ sep) xs) @ y @ concat (map (\<lambda>b. sep @ b) ys)"
proof (induction xs)
  case Nil
  show ?case by (simp add: join_cons)
next
  case (Cons x xs)
  have "join sep (x # xs @ y # ys) = x @ sep @ join sep (xs @ y # ys)"
    by (cases xs) simp_all
  with Cons show ?case by simp
qed

lemma update_around:
  "AList.update k v ps
     = takeWhile (\<lambda>p. fst p \<noteq> k) ps @ (k, v) # tl (dropWhile (\<lambda>p. fst p \<noteq> k) ps)"
  by (induction ps) auto

lemma urlencode_nonce_inj:
  assumes "urlencode (AList.update ''nonce'' (QInt i) ps)
             = urlencode (AList.update ''nonce'' (QInt j) ps)"
  shows "i = j"
proof -
  let ?pre = "takeWhile (\<lambda>p. fst p \<noteq> ''nonce'') ps"
  let ?post = "tl (dropWhile (\<lambda>p. fst p \<noteq> ''nonce'') ps)"
  have enc: "urlencode (AList.update ''nonce'' (QInt n) ps)
      = concat (map (\<lambda>a. a @ ''&'') (map encode_pair ?pre))
        @ (quote_plus ''nonce'' @ ''='' @ str_int n)
        @ concat (map (\<lambda>b. ''&'' @ b) (map encode_pair ?post))" for n
    by (subst update_around)
      (simp only: urlencode_def map_append list.map join_around encode_pair_def
         fst_conv snd_conv py_str_def qval.case quote_plus_str_int)
  from assms have "str_int i = str_int j"
    by (simp only: enc append_assoc same_append_eq append_same_eq)
  then show ?thesis by (rule str_int_inj)
qed

subsection \<open>Truncation\<close>

lemma py_int_mono: "x \<le> y \<Longrightarrow> py_int x \<le> py_int y"
proof -
  assume le: "x \<le> y"
  show ?thesis
  proof (cases "0 \<le> x")
    case True
    with le show ?thesis by (simp add: py_int_def floor_mono)
  next
    case False
    show ?thesis
    proof (cases "0 \<le> y")
      case True
      from False have "\<lceil>x\<rceil> \<le> 0" by (simp add: ceiling_le_iff)
      moreover from True have "0 \<le> \<lfloor>y\<rfloor>" by simp
      ultimately have "\<lceil>x\<rceil> \<le> \<lfloor>y\<rfloor>" by linarith
      with False True show ?thesis by (simp add: py_int_def)
    next
      case False
      with le \<open>\<not> 0 \<le> x\<close> show ?thesis by (simp add: py_int_def ceiling_mono)
    qed
  qed
qed

lemma py_int_step: "0 \<le> x \<Longrightarrow> x + 1 \<le> y \<Longrightarrow> py_int x < py_int y"
proof -
  assume "0 \<le> x" and "x + 1 \<le> y"
  then have "\<lfloor>x\<rfloor> + 1 \<le> \<lfloor>y\<rfloor>"
    by (metis floor_add_int floor_mono of_int_1)
  with \<open>0 \<le> x\<close> \<open>x + 1 \<le> y\<close> show ?thesis by (simp add: py_int_def)
qed

text \<open>
  C1. For every parameter dictionary, client and clock reading, the signer returns the
  dictionary with \<^verbatim>\<open>nonce\<close> set to the nonce minted from the clock: an existing
  \<^verbatim>\<open>nonce\<close> entry is overwritten where it stands, a new one is appended, and every
  other entry and the order of the keys are as they were. The headers are exactly
  \<^verbatim>\<open>Sign\<close> and \<^verbatim>\<open>Key\<close>: the key is the client's API key and the signature is the
  HMAC, keyed by the secret, of the URL-encoded returned dictionary, nonce included.
\<close>

theorem prepare_request_data_contract:
  "fst (prepare_request_data H self now params)
     = AList.update ''nonce'' (QInt (mint_nonce now)) params
   \<and> map_of (fst (prepare_request_data H self now params)) ''nonce''
     = Some (QInt (mint_nonce now))
   \<and> (\<forall>k. k \<noteq> ''nonce'' \<longrightarrow>
          map_of (fst (prepare_request_data H self now params)) k = map_of params k)
   \<and> map fst (fst (prepare_request_data H self now params))
     = (if ''nonce'' \<in> set (map fst params) then map fst params
        else map fst params @ [''nonce''])
   \<and> map fst (snd (prepare_request_data H self now params)) = [''Sign'', ''Key'']
   \<and> map_of (snd (prepare_request_data H self now params)) ''Key'' = Some (api_key self)
   \<and> map_of (snd (prepare_request_data H self now params)) ''Sign''
     = Some (PStr (H (secret self)
          (urlencode (fst (prepare_request_data H self now params)))))"
proof -
  have params: "fst (prepare_request_data H self now params)
      = AList.update ''nonce'' (QInt (mint_nonce now)) params"
    by (simp add: prepare_request_data_def Let_def)
  have headers: "snd (prepare_request_data H self now params)
      = [(''Sign'', PStr (H (secret self)
            (urlencode (AList.update ''nonce'' (QInt (mint_nonce now)) params)))),
         (''Key'', api_key self)]"
    by (simp add: prepare_request_data_def Let_def)
  show ?thesis
    unfolding params headers
    by (simp add: update_conv' update_keys)
qed

theorem prepare_request_data_contract_witness:
  "fst (prepare_request_data (@)
      \<lparr>api_key = PStr ''key'', secret = ''secret'',
       api_endpoint = ''https://api.poloniex.com/'',
       private_api_endpoint = ''https://www.poloniex.com/'',
       runner = None, websockets_endpoint = ''wss://api.poloniex.com/''\<rparr>
      (17000000000001 / 10000)
      [(''command'', QStr ''returnBalances''), (''nonce'', QInt 5)])
     = [(''command'', QStr ''returnBalances''), (''nonce'', QInt 1700000000000)]
   \<and> map_of (fst (prepare_request_data (@)
      \<lparr>api_key = PStr ''key'', secret = ''secret'',
       api_endpoint = ''https://api.poloniex.com/'',
       private_api_endpoint = ''https://www.poloniex.com/'',
       runner = None, websockets_endpoint = ''wss://api.poloniex.com/''\<rparr>
      (17000000000001 / 10000)
      [(''command'', QStr ''returnBalances''), (''nonce'', QInt 5)])) ''command''
     = Some (QStr ''returnBalances'')
   \<and> map_of (snd (prepare_request_data (@)
      \<lparr>api_key = PStr ''key'', secret = ''secret'',
       api_endpoint = ''https://api.poloniex.com/'',
       private_api_endpoint = ''https://www.poloniex.com/'',
       runner = None, websockets_endpoint = ''wss://api.poloniex.com/''\<rparr>
      (17000000000001 / 10000)
      [(''command'', QStr ''returnBalances''), (''nonce'', QInt 5)])) ''Sign''
     = Some (PStr ''secretcommand=returnBalances&nonce=1700000000000'')"
proof -
  let ?c = "\<lparr>api_key = PStr ''key'', secret = ''secret'',
       api_endpoint = ''https://api.poloniex.com/'',
       private_api_endpoint = ''https://www.poloniex.com/'',
       runner = None, websockets_endpoint = ''wss://api.poloniex.com/''\<rparr>"
  let ?P = "[(''command'', QStr ''returnBalances''), (''nonce'', QInt 5)]"
  let ?r = "prepare_request_data (@) ?c (17000000000001 / 10000) ?P"
  note c = prepare_request_data_contract [of "(@)" ?c "17000000000001 / 10000" ?P]
  have nonce: "mint_nonce (17000000000001 / 10000) = 1700000000000"
    by (simp add: mint_nonce_def py_int_def)
  have name: "''command'' \<noteq> ''nonce''" by simp
  from c [THEN conjunct1]
  have params: "fst ?r = [(''command'', QStr ''returnBalances''), (''nonce'', QInt 1700000000000)]"
    by (simp only: nonce) simp
  from c [THEN conjunct2, THEN conjunct2, THEN conjunct1, rule_format, OF name]
  have other: "map_of (fst ?r) ''command'' = Some (QStr ''returnBalances'')"
    by simp
  have enc: "urlencode [(''command'', QStr ''returnBalances''), (''nonce'', QInt 1700000000000)]
      = ''command=returnBalances&nonce=1700000000000''"
    by (simp add: urlencode_def encode_pair_def quote_plus_def quote_char_def always_safe_def
          is_alpha_def is_digit_def py_str_def str_int_def digit_char_def str_nat.simps)
  from c [THEN conjunct2, THEN conjunct2, THEN conjunct2, THEN conjunct2, THEN conjunct2,
      THEN conjunct2]
  have "map_of (snd ?r) ''Sign'' = Some (PStr (secret ?c @ urlencode (fst ?r)))" .
  then have sign: "map_of (snd ?r) ''Sign''
      = Some (PStr ''secretcommand=returnBalances&nonce=1700000000000'')"
    by (simp only: params enc) simp
  from params other sign show ?thesis by (intro conjI)
qed

text \<open>
  C2 as stated fails: two clock readings within one millisecond, the second later than
  the first, give the same nonce, the same body and the same signature.
\<close>

theorem same_millisecond_counterexample:
  "(17000000000001 / 10000 :: real) < 17000000000004 / 10000
   \<and> prepare_request_data (@)
      \<lparr>api_key = PStr ''key'', secret = ''secret'',
       api_endpoint = ''https://api.poloniex.com/'',
       private_api_endpoint = ''https://www.poloniex.com/'',
       runner = None, websockets_endpoint = ''wss://api.poloniex.com/''\<rparr>
      (17000000000001 / 10000) [(''command'', QStr ''returnBalances'')]
     = prepare_request_data (@)
      \<lparr>api_key = PStr ''key'', secret = ''secret'',
       api_endpoint = ''https://api.poloniex.com/'',
       private_api_endpoint = ''https://www.poloniex.com/'',
       runner = None, websockets_endpoint = ''wss://api.poloniex.com/''\<rparr>
      (17000000000004 / 10000) [(''command'', QStr ''returnBalances'')]"
  by (simp add: prepare_request_data_def mint_nonce_def py_int_def)

text \<open>
  C2, as the code has it. The nonce is the clock reading in whole milliseconds, so it
  never decreases while the clock does not go back; two readings at or after the epoch
  and at least a millisecond apart give different nonces, the later one larger, and
  different bodies to sign; two readings with the same millisecond give the same
  nonce, body and signature.
\<close>

theorem nonce_order:
  "(t1 \<le> t2 \<longrightarrow> mint_nonce t1 \<le> mint_nonce t2)
   \<and> (0 \<le> t1 \<and> t1 + 1 / 1000 \<le> t2 \<longrightarrow>
        mint_nonce t1 < mint_nonce t2
        \<and> urlencode (fst (prepare_request_data H self t1 params))
          \<noteq> urlencode (fst (prepare_request_data H self t2 params)))
   \<and> (mint_nonce t1 = mint_nonce t2 \<longrightarrow>
        prepare_request_data H self t1 params = prepare_request_data H self t2 params)"
proof -
  have mono: "mint_nonce t1 \<le> mint_nonce t2" if "t1 \<le> t2"
    using that by (simp add: mint_nonce_def py_int_mono)
  have step: "mint_nonce t1 < mint_nonce t2" if "0 \<le> t1" "t1 + 1 / 1000 \<le> t2"
  proof -
    from that have "0 \<le> t1 * 1000" "t1 * 1000 + 1 \<le> t2 * 1000" by simp_all
    then show ?thesis unfolding mint_nonce_def by (rule py_int_step)
  qed
  have body: "urlencode (fst (prepare_request_data H self t1 params))
      \<noteq> urlencode (fst (prepare_request_data H self t2 params))"
    if "mint_nonce t1 < mint_nonce t2"
  proof
    assume "urlencode (fst (prepare_request_data H self t1 params))
      = urlencode (fst (prepare_request_data H self t2 params))"
    then have "mint_nonce t1 = mint_nonce t2"
      by (simp add: prepare_request_data_def Let_def urlencode_nonce_inj)
    with that show False by simp
  qed
  have same: "prepare_request_data H self t1 params = prepare_request_data H self t2 params"
    if "mint_nonce t1 = mint_nonce t2"
    using that by (simp add: prepare_request_data_def)
  from mono step body same show ?thesis by blast
qed

theorem nonce_order_witness:
  "mint_nonce 1700000000 < mint_nonce (1700000000001 / 1000)
   \<and> urlencode (fst (prepare_request_data (@)
      \<lparr>api_key = PStr ''key'', secret = ''secret'',
       api_endpoint = ''https://api.poloniex.com/'',
       private_api_endpoint = ''https://www.poloniex.com/'',
       runner = None, websockets_endpoint = ''wss://api.poloniex.com/''\<rparr>
      1700000000 [(''command'', QStr ''returnBalances'')]))
     \<noteq> urlencode (fst (prepare_request_data (@)
      \<lparr>api_key = PStr ''key'', secret = ''secret'',
       api_endpoint = ''https://api.poloniex.com/'',
       private_api_endpoint = ''https://www.poloniex.com/'',
       runner = None, websockets_endpoint = ''wss://api.poloniex.com/''\<rparr>
      (1700000000001 / 1000) [(''command'', QStr ''returnBalances'')]))"
proof -
  have h: "(0::real) \<le> 1700000000 \<and> (1700000000::real) + 1 / 1000 \<le> 1700000000001 / 1000"
    by simp
  from nonce_order [of 1700000000 "1700000000001 / 1000", THEN conjunct2, THEN conjunct1,
      rule_format, OF h]
  show ?thesis .
qed

text \<open>
  C3. The \<^verbatim>\<open>Sign\<close> header is a function of the secret and of the bytes of the encoded
  final dictionary: two signings with equal secrets whose final dictionaries encode to
  the same bytes carry the same signature. A \<^verbatim>\<open>nonce\<close> already in the dictionary has no
  influence, since the signer overwrites it: signing again with the same minted nonce
  gives the same dictionary and headers whatever nonce the input carried.
\<close>

theorem sign_deterministic:
  "(secret c1 = secret c2
      \<and> urlencode (fst (prepare_request_data H c1 t1 P1))
        = urlencode (fst (prepare_request_data H c2 t2 P2)) \<longrightarrow>
      map_of (snd (prepare_request_data H c1 t1 P1)) ''Sign''
        = map_of (snd (prepare_request_data H c2 t2 P2)) ''Sign'')
   \<and> (mint_nonce t1 = mint_nonce t2 \<longrightarrow>
        prepare_request_data H self t1 (AList.update ''nonce'' x params)
          = prepare_request_data H self t2 (AList.update ''nonce'' y params))"
  by (simp add: prepare_request_data_def Let_def)

theorem sign_deterministic_witness:
  "map_of (snd (prepare_request_data (@)
      \<lparr>api_key = PStr ''key'', secret = ''secret'',
       api_endpoint = ''https://api.poloniex.com/'',
       private_api_endpoint = ''https://www.poloniex.com/'',
       runner = None, websockets_endpoint = ''wss://api.poloniex.com/''\<rparr>
      1700000000 [(''command'', QStr ''returnBalances''), (''nonce'', QInt 1)])) ''Sign''
     = map_of (snd (prepare_request_data (@)
      \<lparr>api_key = PStr ''other'', secret = ''secret'',
       api_endpoint = ''https://api.poloniex.com/'',
       private_api_endpoint = ''https://www.poloniex.com/'',
       runner = None, websockets_endpoint = ''wss://api.poloniex.com/''\<rparr>
      (17000000000002 / 10000) [(''command'', QStr ''returnBalances''), (''nonce'', QInt 2)])) ''Sign''"
proof -
  let ?c1 = "\<lparr>api_key = PStr ''key'', secret = ''secret'',
       api_endpoint = ''https://api.poloniex.com/'',
       private_api_endpoint = ''https://www.poloniex.com/'',
       runner = None, websockets_endpoint = ''wss://api.poloniex.com/''\<rparr>"
  let ?c2 = "\<lparr>api_key = PStr ''other'', secret = ''secret'',
       api_endpoint = ''https://api.poloniex.com/'',
       private_api_endpoint = ''https://www.poloniex.com/'',
       runner = None, websockets_endpoint = ''wss://api.poloniex.com/''\<rparr>"
  let ?P1 = "[(''command'', QStr ''returnBalances''), (''nonce'', QInt 1)]"
  let ?P2 = "[(''command'', QStr ''returnBalances''), (''nonce'', QInt 2)]"
  have h: "secret ?c1 = secret ?c2
      \<and> urlencode (fst (prepare_request_data (@) ?c1 1700000000 ?P1))
        = urlencode (fst (prepare_request_data (@) ?c2 (17000000000002 / 10000) ?P2))"
    by (simp add: prepare_request_data_def Let_def mint_nonce_def py_int_def)
  from sign_deterministic [of ?c1 ?c2 "(@)" 1700000000 ?P1 "17000000000002 / 10000" ?P2,
      THEN conjunct1, rule_format, OF h]
  show ?thesis .
qed

end
